theory Spec2Isabelle
  imports Main "HOL-Library.Word" "HOL-Library.Sublist"
begin

section \<open>WebRTC signaling endpoints: receiver.c and sender.c\<close>

text \<open>
  The repository holds two programs built on GStreamer's webrtcbin, libsoup and json-glib:
  a receiver (it answers an SDP offer and displays the H.264 stream) and a sender (it
  creates the offer). Both are sets of callbacks run one at a time by a GLib main loop
  over a handful of process-wide variables. The model keeps those variables in a record,
  appends every call into a library to a trace, and makes each callback a function from
  state to state.
\<close>

subsection \<open>JSON documents as json-glib holds them\<close>

text \<open>
  A frame's text and the node tree that \<open>json_parser_load_from_data\<close> builds from it (or
  that \<open>json_generator_to_data\<close> prints) are identified: the model works on the tree.
  Integers are \<open>gint64\<close>. A floating-point number is kept as the \<open>gint64\<close> that
  \<open>json_node_get_int\<close> converts it to, the only way this code reads a number.
\<close>

datatype json =
    JNull
  | JBool bool
  | JInt "64 word"
  | JDouble "64 word"
  | JString string
  | JArray "json list"
  | JObject "(string \<times> json) list"

type_synonym jobject = "(string \<times> json) list"

text \<open>
  The accessors the handlers call. With GLib's checks compiled in (the default) an accessor
  handed a \<open>NULL\<close> object, a missing member or a member of another kind returns \<open>NULL\<close>
  (or 0 for the integer accessor); \<open>None\<close> is the \<open>NULL\<close> pointer.
\<close>

definition json_object_has_member :: "jobject \<Rightarrow> string \<Rightarrow> bool" where
  "json_object_has_member obj name = (map_of obj name \<noteq> None)"

definition json_object_get_object_member :: "jobject option \<Rightarrow> string \<Rightarrow> jobject option" where
  "json_object_get_object_member object name =
     (case object of
        None \<Rightarrow> None
      | Some obj \<Rightarrow> (case map_of obj name of Some (JObject m) \<Rightarrow> Some m | _ \<Rightarrow> None))"

definition json_object_get_string_member :: "jobject option \<Rightarrow> string \<Rightarrow> string option" where
  "json_object_get_string_member object name =
     (case object of
        None \<Rightarrow> None
      | Some obj \<Rightarrow> (case map_of obj name of Some (JString t) \<Rightarrow> Some t | _ \<Rightarrow> None))"

fun json_node_get_int :: "json \<Rightarrow> 64 word" where
  "json_node_get_int (JInt n) = n"
| "json_node_get_int (JDouble d) = d"
| "json_node_get_int (JBool b) = (if b then 1 else 0)"
| "json_node_get_int _ = 0"

definition json_object_get_int_member :: "jobject option \<Rightarrow> string \<Rightarrow> 64 word" where
  "json_object_get_int_member object name =
     (case object of
        None \<Rightarrow> 0
      | Some obj \<Rightarrow> (case map_of obj name of None \<Rightarrow> 0 | Some v \<Rightarrow> json_node_get_int v))"

text \<open>
  \<open>json_object_to_string\<close> wraps the object in a root node and prints it; on trees that is
  the root node itself.
\<close>

definition json_object_to_string :: "jobject \<Rightarrow> json" where
  "json_object_to_string object = JObject object"

subsection \<open>Library values\<close>

datatype ws_state = SOUP_WEBSOCKET_STATE_OPEN | SOUP_WEBSOCKET_STATE_CLOSING
  | SOUP_WEBSOCKET_STATE_CLOSED

datatype ws_data_type = SOUP_WEBSOCKET_DATA_TEXT | SOUP_WEBSOCKET_DATA_BINARY

datatype sdp_type = GST_WEBRTC_SDP_TYPE_OFFER | GST_WEBRTC_SDP_TYPE_PRANSWER
  | GST_WEBRTC_SDP_TYPE_ANSWER | GST_WEBRTC_SDP_TYPE_ROLLBACK

text \<open>
  A \<open>GstWebRTCSessionDescription\<close>: its type tag and its SDP, the latter kept as the text
  that \<open>gst_sdp_message_as_text\<close> prints and \<open>gst_sdp_message_parse_buffer\<close> reads.
\<close>

record desc =
  desc_type :: sdp_type
  desc_sdp :: string

datatype promise_result = GST_PROMISE_RESULT_REPLIED "desc option"
  | GST_PROMISE_RESULT_INTERRUPTED | GST_PROMISE_RESULT_EXPIRED

datatype pad_direction = GST_PAD_UNKNOWN | GST_PAD_SRC | GST_PAD_SINK

text \<open>An argument of a \<open>printf\<close>-style call.\<close>

datatype arg = S string | I int

text \<open>Every call that leaves the program, in the order made.\<close>

datatype effect =
    Print string "arg list"
  | PrintErr string "arg list"
  | WsClose
  | WsUnref
  | WsSendText json
  | PipelineSetStateNull
  | PipelineUnref
  | LoopQuit
  | LoopUnref
  | SetRemoteDescription desc
  | SetLocalDescription "desc option"
  | CreateAnswer
  | CreateOffer
  | AddIceCandidate "32 word" "string option"
  | ParseBinFromDescription
  | ObjectSet string string
  | BinAdd
  | SyncStateWithParent
  | PadLink

datatype fault = NullDereference | AssertionFailed

subsection \<open>The process-wide variables\<close>

text \<open>
  A pointer variable is \<open>True\<close> when it is not \<open>NULL\<close>; \<open>ws_conn\<close> carries the state that
  \<open>soup_websocket_connection_get_state\<close> reports. The three counters are the promises
  created with a change function and handed to webrtcbin that have not fired yet.
\<close>

record state =
  loop :: bool
  pipep :: bool
  webrtc :: bool
  ws_conn :: "ws_state option"
  video_chain_built :: bool
  promises_offer_set :: nat
  promises_answer_created :: nat
  promises_offer_created :: nat
  trace :: "effect list"

definition call :: "effect \<Rightarrow> state \<Rightarrow> state" where
  "call e s = s\<lparr>trace := trace s @ [e]\<rparr>"

text \<open>
  \<open>g_signal_emit_by_name (webrtc, ...)\<close>: on a \<open>NULL\<close> instance GLib warns and emits
  nothing.
\<close>

definition g_signal_emit_by_name :: "effect \<Rightarrow> state \<Rightarrow> state" where
  "g_signal_emit_by_name e s = (if webrtc s then call e s else s)"

text \<open>The state once the socket is connected and the pipeline is playing.\<close>

definition live :: state where
  "live = \<lparr>loop = True, pipep = True, webrtc = True,
           ws_conn = Some SOUP_WEBSOCKET_STATE_OPEN, video_chain_built = False,
           promises_offer_set = 0, promises_answer_created = 0,
           promises_offer_created = 0, trace = []\<rparr>"

subsection \<open>Teardown (both programs, same text)\<close>

text \<open>
  \<open>closing\<close> is the state the connection reports once
  \<open>soup_websocket_connection_close\<close> has been requested on an open connection.
\<close>

definition cleanup_and_quit :: "ws_state \<Rightarrow> string option \<Rightarrow> state \<Rightarrow> state" where
  "cleanup_and_quit closing msg s =
     (let s1 = (case msg of None \<Rightarrow> s | Some m \<Rightarrow> call (PrintErr ''%s\<newline>'' [S m]) s);
          s2 = (case ws_conn s1 of
                  None \<Rightarrow> s1
                | Some st \<Rightarrow>
                    if st = SOUP_WEBSOCKET_STATE_OPEN
                    then (call WsClose s1)\<lparr>ws_conn := Some closing\<rparr>
                    else (call WsUnref s1)\<lparr>ws_conn := None\<rparr>);
          s3 = (if pipep s2
                then (call PipelineUnref (call PipelineSetStateNull s2))
                       \<lparr>pipep := False, webrtc := False\<rparr>
                else s2)
      in if loop s3 then (call LoopUnref (call LoopQuit s3))\<lparr>loop := False\<rparr> else s3)"

definition on_server_closed :: "ws_state \<Rightarrow> string \<Rightarrow> state \<Rightarrow> state" where
  "on_server_closed closing who s =
     cleanup_and_quit closing (Some (who @ '' Server closed'')) s"



subsection \<open>Outgoing signaling (both programs, same text)\<close>

text \<open>\<open>(gint) mlineindex\<close>, widened to the \<open>gint64\<close> that \<open>json_object_set_int_member\<close> takes.\<close>

definition gint_of_guint :: "32 word \<Rightarrow> 64 word" where
  "gint_of_guint mlineindex = scast mlineindex"

definition ice_message :: "32 word \<Rightarrow> string \<Rightarrow> jobject" where
  "ice_message mlineindex candidate =
     [(''ice'', JObject [(''candidate'', JString candidate),
                         (''sdpMLineIndex'', JInt (gint_of_guint mlineindex))])]"

definition send_ice_candidate :: "32 word \<Rightarrow> string \<Rightarrow> state \<Rightarrow> state" where
  "send_ice_candidate mlineindex candidate s =
     (if ws_conn s \<noteq> Some SOUP_WEBSOCKET_STATE_OPEN then s
      else call (WsSendText (json_object_to_string (ice_message mlineindex candidate))) s)"

definition sdp_message :: "desc \<Rightarrow> jobject" where
  "sdp_message d =
     [(''sdp'', JObject [(''type'', JString (if desc_type d = GST_WEBRTC_SDP_TYPE_OFFER
                                              then ''offer'' else ''answer'')),
                         (''sdp'', JString (desc_sdp d))])]"

definition send_sdp :: "desc option \<Rightarrow> state \<Rightarrow> fault + state" where
  "send_sdp d s =
     (if ws_conn s \<noteq> Some SOUP_WEBSOCKET_STATE_OPEN then Inr s
      else case d of
             None \<Rightarrow> Inl NullDereference
           | Some d' \<Rightarrow> Inr (call (WsSendText (json_object_to_string (sdp_message d'))) s))"

subsection \<open>Frames\<close>

text \<open>
  What \<open>json_parser_load_from_data\<close> makes of a frame's bytes: it rejects them, or it
  builds a document with the given root node.
\<close>

datatype payload = Malformed | Doc json

subsection \<open>receiver.c: negotiation callbacks\<close>

definition on_offer_set :: "state \<Rightarrow> state" where
  "on_offer_set s =
     (if webrtc s
      then (call CreateAnswer s)\<lparr>promises_answer_created := Suc (promises_answer_created s)\<rparr>
      else s)"

definition on_answer_created :: "promise_result \<Rightarrow> state \<Rightarrow> fault + state" where
  "on_answer_created result s =
     (case result of
        GST_PROMISE_RESULT_REPLIED answer \<Rightarrow>
          send_sdp answer
            (call (Print ''[receiver] Sending SDP answer\<newline>'' [])
               (g_signal_emit_by_name (SetLocalDescription answer) s))
      | _ \<Rightarrow> Inl AssertionFailed)"

definition receiver_handle_server_message ::
    "ws_data_type \<Rightarrow> payload \<Rightarrow> state \<Rightarrow> fault + state" where
  "receiver_handle_server_message type message s =
     (if type \<noteq> SOUP_WEBSOCKET_DATA_TEXT then Inr s
      else case message of
        Malformed \<Rightarrow> Inr s
      | Doc (JObject obj) \<Rightarrow>
          if json_object_has_member obj ''sdp'' then
            (let sdpobj = json_object_get_object_member (Some obj) ''sdp'';
                 sdptype = json_object_get_string_member sdpobj ''type'';
                 sdptext = json_object_get_string_member sdpobj ''sdp''
             in if sdptype = Some ''offer'' then
                  (case sdptext of
                     None \<Rightarrow> Inl NullDereference
                   | Some text \<Rightarrow>
                       (let s1 = call (Print
                              ''[receiver] Received SDP offer -> set-remote-description\<newline>'' []) s
                        in Inr (if webrtc s1
                                then (call (SetRemoteDescription
                                        \<lparr>desc_type = GST_WEBRTC_SDP_TYPE_OFFER, desc_sdp = text\<rparr>) s1)
                                       \<lparr>promises_offer_set := Suc (promises_offer_set s1)\<rparr>
                                else s1)))
                else Inr s)
          else if json_object_has_member obj ''ice'' then
            (let ice = json_object_get_object_member (Some obj) ''ice'';
                 candidate = json_object_get_string_member ice ''candidate'';
                 mline = (ucast (json_object_get_int_member ice ''sdpMLineIndex'') :: 32 word)
             in Inr (g_signal_emit_by_name (AddIceCandidate mline candidate) s))
          else Inr s
      | Doc _ \<Rightarrow> Inr s)"

subsection \<open>receiver.c: attaching the inbound stream\<close>

text \<open>
  A pad as \<open>pad-added\<close> delivers it: its direction and, when it has current caps, the name
  and the \<open>encoding-name\<close> field of their first structure.
\<close>

record pad =
  pad_direction :: pad_direction
  pad_caps :: "(string option \<times> string option) option"

text \<open>
  What the GStreamer calls that build and link the receive chain return for this pad: the
  error and the bin of \<open>gst_parse_bin_from_description\<close>, for the \<open>depay\<close> and \<open>vsink\<close>
  elements whether they are found and which of the two optional properties each has,
  the ghost sink pad, and the result of \<open>gst_pad_link\<close> (0 is \<open>GST_PAD_LINK_OK\<close>).
\<close>

record chain =
  parse_err :: "string option"
  rxbin :: bool
  depay :: "(bool \<times> bool) option"
  vsink :: "(bool \<times> bool) option"
  sinkpad :: bool
  link_ret :: int

definition GST_PAD_LINK_OK :: int where
  "GST_PAD_LINK_OK = 0"

definition set_if_present :: "string \<Rightarrow> (bool \<times> bool) option \<Rightarrow> string \<Rightarrow> string \<Rightarrow> state \<Rightarrow> state" where
  "set_if_present element found p1 p2 s =
     (case found of
        None \<Rightarrow> s
      | Some (has1, has2) \<Rightarrow>
          (let s1 = (if has1 then call (ObjectSet element p1) s else s)
           in if has2 then call (ObjectSet element p2) s1 else s1))"

definition on_incoming_stream :: "pad \<Rightarrow> chain \<Rightarrow> state \<Rightarrow> state" where
  "on_incoming_stream p c s =
     (if pad_direction p \<noteq> GST_PAD_SRC then s
      else if video_chain_built s then
        call (Print ''[receiver] Video chain already built, ignoring extra pad\<newline>'' []) s
      else case pad_caps p of
        None \<Rightarrow> call (PrintErr ''[receiver] No caps on incoming pad\<newline>'' []) s
      | Some (media_type, encoding) \<Rightarrow>
          (let s1 = call (Print ''[receiver] pad caps: %s, encoding=%s\<newline>''
                       [S (case media_type of None \<Rightarrow> ''null'' | Some m \<Rightarrow> m),
                        S (case encoding of None \<Rightarrow> ''null'' | Some e \<Rightarrow> e)]) s
           in if (case media_type of None \<Rightarrow> True
                  | Some m \<Rightarrow> \<not> prefix ''application/x-rtp'' m) \<or>
                 (case encoding of None \<Rightarrow> True | Some e \<Rightarrow> e \<noteq> ''H264'')
              then call (Print ''[receiver] Ignoring non-H264 pad\<newline>'' []) s1
              else
                (let s2 = call ParseBinFromDescription s1
                 in case parse_err c of
                      Some e \<Rightarrow>
                        call (PrintErr ''[receiver] Failed to create H264 bin: %s\<newline>'' [S e]) s2
                    | None \<Rightarrow>
                        if \<not> rxbin c then
                          call (PrintErr ''[receiver] H264 bin is NULL\<newline>'' []) s2
                        else
                          (let s3 = set_if_present ''depay'' (depay c)
                                      ''request-keyframe'' ''wait-for-keyframe'' s2;
                               s4 = set_if_present ''vsink'' (vsink c) ''qos'' ''max-lateness'' s3;
                               s5 = call SyncStateWithParent (call BinAdd s4)
                           in if \<not> sinkpad c then
                                call (PrintErr ''[receiver] rxbin has no ghost sink pad\<newline>'' []) s5
                              else
                                (let s6 = call PadLink s5
                                 in if link_ret c \<noteq> GST_PAD_LINK_OK then
                                      call (PrintErr
                                        ''[receiver] Failed to link webrtc pad -> rxbin (ret=%d)\<newline>''
                                        [I (link_ret c)]) s6
                                    else
                                      call (Print ''[receiver] H264 receiver bin linked\<newline>'' [])
                                        (s6\<lparr>video_chain_built := True\<rparr>))))))"

subsection \<open>sender.c: negotiation callbacks\<close>

definition on_offer_created :: "promise_result \<Rightarrow> state \<Rightarrow> fault + state" where
  "on_offer_created result s =
     (case result of
        GST_PROMISE_RESULT_REPLIED offer \<Rightarrow>
          send_sdp offer
            (call (Print ''[sender] Sending SDP offer\<newline>'' [])
               (g_signal_emit_by_name (SetLocalDescription offer) s))
      | _ \<Rightarrow> Inl AssertionFailed)"

definition on_negotiation_needed :: "state \<Rightarrow> state" where
  "on_negotiation_needed s =
     (let s1 = call (Print ''[sender] on-negotiation-needed -> create-offer\<newline>'' []) s
      in if webrtc s1
         then (call CreateOffer s1)\<lparr>promises_offer_created := Suc (promises_offer_created s1)\<rparr>
         else s1)"

definition sender_handle_server_message ::
    "ws_data_type \<Rightarrow> payload \<Rightarrow> state \<Rightarrow> fault + state" where
  "sender_handle_server_message type message s =
     (if type \<noteq> SOUP_WEBSOCKET_DATA_TEXT then Inr s
      else case message of
        Malformed \<Rightarrow> Inr s
      | Doc (JObject obj) \<Rightarrow>
          if json_object_has_member obj ''sdp'' then
            (let sdpobj = json_object_get_object_member (Some obj) ''sdp'';
                 sdptype = json_object_get_string_member sdpobj ''type'';
                 sdptext = json_object_get_string_member sdpobj ''sdp''
             in if sdptype = Some ''answer'' then
                  (case sdptext of
                     None \<Rightarrow> Inl NullDereference
                   | Some text \<Rightarrow>
                       Inr (g_signal_emit_by_name
                              (SetRemoteDescription
                                 \<lparr>desc_type = GST_WEBRTC_SDP_TYPE_ANSWER, desc_sdp = text\<rparr>)
                              (call (Print
                                 ''[sender] Received SDP answer -> set-remote-description\<newline>'' []) s)))
                else Inr s)
          else if json_object_has_member obj ''ice'' then
            (let ice = json_object_get_object_member (Some obj) ''ice'';
                 candidate = json_object_get_string_member ice ''candidate'';
                 mline = (ucast (json_object_get_int_member ice ''sdpMLineIndex'') :: 32 word)
             in Inr (g_signal_emit_by_name (AddIceCandidate mline candidate) s))
          else Inr s
      | Doc _ \<Rightarrow> Inr s)"

subsection \<open>The message a handler reads out of a frame\<close>

text \<open>
  \<open>handle_server_message\<close> first reads the members of the document and then calls into
  webrtcbin. The two functions below are the reading half of each program's handler, kept
  apart so that decoding can be spoken of on its own; \<open>receiver_handle_decode\<close> and
  \<open>sender_handle_decode\<close> show that the handlers act on exactly what these return.
\<close>

datatype signaling_message = SdpMessage desc | IceMessage "32 word" "string option"

definition decode_ice :: "jobject \<Rightarrow> signaling_message" where
  "decode_ice obj =
     (let ice = json_object_get_object_member (Some obj) ''ice''
      in IceMessage (ucast (json_object_get_int_member ice ''sdpMLineIndex''))
                    (json_object_get_string_member ice ''candidate''))"

definition decode_sdp :: "string \<Rightarrow> sdp_type \<Rightarrow> jobject \<Rightarrow> fault + signaling_message option" where
  "decode_sdp expected t obj =
     (let sdpobj = json_object_get_object_member (Some obj) ''sdp''
      in if json_object_get_string_member sdpobj ''type'' = Some expected then
           (case json_object_get_string_member sdpobj ''sdp'' of
              None \<Rightarrow> Inl NullDereference
            | Some text \<Rightarrow> Inr (Some (SdpMessage \<lparr>desc_type = t, desc_sdp = text\<rparr>)))
         else Inr None)"

definition decode :: "string \<Rightarrow> sdp_type \<Rightarrow> ws_data_type \<Rightarrow> payload
    \<Rightarrow> fault + signaling_message option" where
  "decode expected t type message =
     (if type \<noteq> SOUP_WEBSOCKET_DATA_TEXT then Inr None
      else case message of
        Malformed \<Rightarrow> Inr None
      | Doc (JObject obj) \<Rightarrow>
          if json_object_has_member obj ''sdp'' then decode_sdp expected t obj
          else if json_object_has_member obj ''ice'' then Inr (Some (decode_ice obj))
          else Inr None
      | Doc _ \<Rightarrow> Inr None)"

definition receiver_decode :: "ws_data_type \<Rightarrow> payload \<Rightarrow> fault + signaling_message option" where
  "receiver_decode = decode ''offer'' GST_WEBRTC_SDP_TYPE_OFFER"

definition sender_decode :: "ws_data_type \<Rightarrow> payload \<Rightarrow> fault + signaling_message option" where
  "sender_decode = decode ''answer'' GST_WEBRTC_SDP_TYPE_ANSWER"

text \<open>What each program does with a message once read.\<close>

fun receiver_act :: "signaling_message \<Rightarrow> state \<Rightarrow> state" where
  "receiver_act (SdpMessage d) s =
     (let s1 = call (Print ''[receiver] Received SDP offer -> set-remote-description\<newline>'' []) s
      in if webrtc s1
         then (call (SetRemoteDescription d) s1)\<lparr>promises_offer_set := Suc (promises_offer_set s1)\<rparr>
         else s1)"
| "receiver_act (IceMessage mline candidate) s =
     g_signal_emit_by_name (AddIceCandidate mline candidate) s"

fun sender_act :: "signaling_message \<Rightarrow> state \<Rightarrow> state" where
  "sender_act (SdpMessage d) s =
     g_signal_emit_by_name (SetRemoteDescription d)
       (call (Print ''[sender] Received SDP answer -> set-remote-description\<newline>'' []) s)"
| "sender_act (IceMessage mline candidate) s =
     g_signal_emit_by_name (AddIceCandidate mline candidate) s"

text \<open>The frame that carries an outgoing message to the peer.\<close>

definition frame :: "jobject \<Rightarrow> payload" where
  "frame obj = Doc (json_object_to_string obj)"

subsection \<open>Sessions: the callbacks the main loop runs\<close>

text \<open>
  A change function runs once for a promise that was created with it and handed to
  webrtcbin; with none outstanding the event has no callback to run.
\<close>

datatype receiver_event =
    Message ws_data_type payload
  | OfferSet
  | AnswerCreated promise_result
  | OnIceCandidate "32 word" string
  | PadAdded pad chain

fun receiver_step :: "receiver_event \<Rightarrow> state \<Rightarrow> fault + state" where
  "receiver_step (Message type message) s = receiver_handle_server_message type message s"
| "receiver_step OfferSet s =
     (if promises_offer_set s = 0 then Inr s
      else Inr (on_offer_set (s\<lparr>promises_offer_set := promises_offer_set s - 1\<rparr>)))"
| "receiver_step (AnswerCreated result) s =
     (if promises_answer_created s = 0 then Inr s
      else on_answer_created result
             (s\<lparr>promises_answer_created := promises_answer_created s - 1\<rparr>))"
| "receiver_step (OnIceCandidate mlineindex candidate) s =
     Inr (send_ice_candidate mlineindex candidate s)"
| "receiver_step (PadAdded p c) s = Inr (on_incoming_stream p c s)"

fun receiver_run :: "receiver_event list \<Rightarrow> state \<Rightarrow> fault + state" where
  "receiver_run [] s = Inr s"
| "receiver_run (e # es) s =
     (case receiver_step e s of Inl f \<Rightarrow> Inl f | Inr s' \<Rightarrow> receiver_run es s')"

datatype sender_event =
    SMessage ws_data_type payload
  | NegotiationNeeded
  | OfferCreated promise_result
  | SOnIceCandidate "32 word" string

fun sender_step :: "sender_event \<Rightarrow> state \<Rightarrow> fault + state" where
  "sender_step (SMessage type message) s = sender_handle_server_message type message s"
| "sender_step NegotiationNeeded s = Inr (on_negotiation_needed s)"
| "sender_step (OfferCreated result) s =
     (if promises_offer_created s = 0 then Inr s
      else on_offer_created result
             (s\<lparr>promises_offer_created := promises_offer_created s - 1\<rparr>))"
| "sender_step (SOnIceCandidate mlineindex candidate) s =
     Inr (send_ice_candidate mlineindex candidate s)"

fun sender_run :: "sender_event list \<Rightarrow> state \<Rightarrow> fault + state" where
  "sender_run [] s = Inr s"
| "sender_run (e # es) s =
     (case sender_step e s of Inl f \<Rightarrow> Inl f | Inr s' \<Rightarrow> sender_run es s')"

fun pads_added :: "(pad \<times> chain) list \<Rightarrow> state \<Rightarrow> state" where
  "pads_added [] s = s"
| "pads_added ((p, c) # ps) s = pads_added ps (on_incoming_stream p c s)"

subsection \<open>Reading a trace\<close>

fun is_add_ice :: "effect \<Rightarrow> bool" where
  "is_add_ice (AddIceCandidate _ _) = True"
| "is_add_ice _ = False"

definition ice_calls :: "state \<Rightarrow> effect list" where
  "ice_calls s = filter is_add_ice (trace s)"

fun is_diagnostic :: "effect \<Rightarrow> bool" where
  "is_diagnostic (Print _ _) = True"
| "is_diagnostic (PrintErr _ _) = True"
| "is_diagnostic _ = False"

definition create_answers :: "state \<Rightarrow> nat" where
  "create_answers s = count_list (trace s) CreateAnswer"

definition create_offers :: "state \<Rightarrow> nat" where
  "create_offers s = count_list (trace s) CreateOffer"

definition chain_constructions :: "state \<Rightarrow> nat" where
  "chain_constructions s = count_list (trace s) ParseBinFromDescription"

text \<open>The calls to webrtcbin that the ICE messages among the events ask for, in order.\<close>

fun forwarded :: "signaling_message option \<Rightarrow> effect list" where
  "forwarded (Some (IceMessage mline candidate)) = [AddIceCandidate mline candidate]"
| "forwarded _ = []"

fun receiver_ice :: "receiver_event \<Rightarrow> effect list" where
  "receiver_ice (Message type message) =
     (case receiver_decode type message of Inl _ \<Rightarrow> [] | Inr m \<Rightarrow> forwarded m)"
| "receiver_ice _ = []"

fun sender_ice :: "sender_event \<Rightarrow> effect list" where
  "sender_ice (SMessage type message) =
     (case sender_decode type message of Inl _ \<Rightarrow> [] | Inr m \<Rightarrow> forwarded m)"
| "sender_ice _ = []"

fun is_sdp :: "signaling_message option \<Rightarrow> bool" where
  "is_sdp (Some (SdpMessage _)) = True"
| "is_sdp _ = False"

fun receiver_offer :: "receiver_event \<Rightarrow> bool" where
  "receiver_offer (Message type message) =
     (case receiver_decode type message of Inl _ \<Rightarrow> False | Inr m \<Rightarrow> is_sdp m)"
| "receiver_offer _ = False"

text \<open>The inbound pads the attachment policy accepts, and the attempts that succeed.\<close>

definition matches :: "pad \<Rightarrow> bool" where
  "matches p =
     (pad_direction p = GST_PAD_SRC \<and>
      (case pad_caps p of
         Some (Some media_type, Some encoding) \<Rightarrow>
           prefix ''application/x-rtp'' media_type \<and> encoding = ''H264''
       | _ \<Rightarrow> False))"

definition attaches :: "chain \<Rightarrow> bool" where
  "attaches c = (parse_err c = None \<and> rxbin c \<and> sinkpad c \<and> link_ret c = GST_PAD_LINK_OK)"

text \<open>Frames no shape of the protocol names: rejected bytes, a root that is no object, an
  object with neither an \<open>sdp\<close> nor an \<open>ice\<close> member.\<close>

fun unrecognised :: "payload \<Rightarrow> bool" where
  "unrecognised Malformed = True"
| "unrecognised (Doc (JObject obj)) =
     (\<not> json_object_has_member obj ''sdp'' \<and> \<not> json_object_has_member obj ''ice'')"
| "unrecognised (Doc _) = True"

subsection \<open>Teardown, repeated\<close>



subsection \<open>Concrete sessions\<close>

text \<open>Inputs on which the statements below are evaluated.\<close>

definition offer0 :: desc where
  "offer0 = \<lparr>desc_type = GST_WEBRTC_SDP_TYPE_OFFER, desc_sdp = ''v=0''\<rparr>"

definition answer0 :: desc where
  "answer0 = \<lparr>desc_type = GST_WEBRTC_SDP_TYPE_ANSWER, desc_sdp = ''v=0''\<rparr>"

definition two_offers :: "receiver_event list" where
  "two_offers =
     [Message SOUP_WEBSOCKET_DATA_TEXT (frame (sdp_message offer0)), OfferSet,
      Message SOUP_WEBSOCKET_DATA_TEXT (frame (sdp_message offer0)), OfferSet]"

definition both_members :: jobject where
  "both_members =
     [(''sdp'', JObject [(''type'', JString ''offer''), (''sdp'', JString ''v=0'')]),
      (''ice'', JObject [(''candidate'', JString ''candidate:1 1 UDP''),
                         (''sdpMLineIndex'', JInt 0)])]"

definition ice_then_offer :: "receiver_event list" where
  "ice_then_offer =
     [Message SOUP_WEBSOCKET_DATA_TEXT (frame (ice_message 0 ''candidate:1 1 UDP'')),
      Message SOUP_WEBSOCKET_DATA_TEXT (frame (sdp_message offer0)),
      Message SOUP_WEBSOCKET_DATA_TEXT (frame (ice_message 1 '''')),
      OfferSet,
      Message SOUP_WEBSOCKET_DATA_TEXT (frame (ice_message 0 ''candidate:1 1 UDP''))]"

definition h264_pad :: pad where
  "h264_pad = \<lparr>pad_direction = GST_PAD_SRC,
               pad_caps = Some (Some ''application/x-rtp'', Some ''H264'')\<rparr>"

definition audio_pad :: pad where
  "audio_pad = \<lparr>pad_direction = GST_PAD_SRC, pad_caps = Some (Some ''audio'', Some ''H264'')\<rparr>"

definition good_chain :: chain where
  "good_chain = \<lparr>parse_err = None, rxbin = True, depay = Some (True, False),
                 vsink = None, sinkpad = True, link_ret = 0\<rparr>"

definition bad_chain :: chain where
  "bad_chain = good_chain\<lparr>link_ret := - 1\<rparr>"

definition three_pads :: "(pad \<times> chain) list" where
  "three_pads = [(h264_pad, bad_chain), (h264_pad, good_chain), (h264_pad, good_chain)]"

definition ice_then_answer :: "sender_event list" where
  "ice_then_answer =
     [SMessage SOUP_WEBSOCKET_DATA_TEXT (frame (ice_message 1 ''candidate:2 1 UDP'')),
      NegotiationNeeded,
      SMessage SOUP_WEBSOCKET_DATA_TEXT (frame (sdp_message answer0)),
      SMessage SOUP_WEBSOCKET_DATA_TEXT (frame (ice_message 0 ''''))]"

section \<open>Auxiliary facts\<close>

subsection \<open>Traces and casts\<close>

lemma call_simps:
  "trace (call e s) = trace s @ [e]"
  "loop (call e s) = loop s"
  "pipep (call e s) = pipep s"
  "webrtc (call e s) = webrtc s"
  "ws_conn (call e s) = ws_conn s"
  "video_chain_built (call e s) = video_chain_built s"
  "promises_offer_set (call e s) = promises_offer_set s"
  "promises_answer_created (call e s) = promises_answer_created s"
  "promises_offer_created (call e s) = promises_offer_created s"
  by (simp_all add: call_def)

lemma emit_frame:
  "webrtc (g_signal_emit_by_name e s) = webrtc s"
  "promises_offer_set (g_signal_emit_by_name e s) = promises_offer_set s"
  "count_list (trace (g_signal_emit_by_name e s)) x =
     count_list (trace s) x + (if webrtc s \<and> e = x then 1 else 0)"
  "filter is_add_ice (trace (g_signal_emit_by_name e s)) =
     filter is_add_ice (trace s) @ (if webrtc s \<and> is_add_ice e then [e] else [])"
  by (simp_all add: g_signal_emit_by_name_def call_simps)

lemma gint_roundtrip: "(ucast (gint_of_guint m) :: 32 word) = m"
proof -
  have down: "is_down (ucast :: 64 word \<Rightarrow> 32 word)"
    by (simp add: is_down)
  have up: "is_up (scast :: 32 word \<Rightarrow> 64 word)"
    by (simp add: is_up)
  have "(ucast (scast m :: 64 word) :: 32 word) = scast (scast m :: 64 word)"
    using down_cast_same [OF down] by (rule fun_cong)
  also have "\<dots> = m"
    using up by (rule scast_up_scast_id)
  finally show ?thesis
    by (simp add: gint_of_guint_def)
qed

lemma gint_value:
  "sint (gint_of_guint m) = (if unat m < 2 ^ 31 then int (unat m) else int (unat m) - 2 ^ 32)"
proof -
  have up: "is_up (scast :: 32 word \<Rightarrow> 64 word)"
    by (simp add: is_up)
  have a: "sint (gint_of_guint m) = sint m"
    unfolding gint_of_guint_def using up by (rule sint_up_scast)
  have b: "sint m = (uint m + 2 ^ 31) mod 2 ^ 32 - 2 ^ 31"
    by (simp add: sint_uint signed_take_bit_eq_take_bit_shift take_bit_eq_mod)
  have c: "0 \<le> uint m" "uint m < 2 ^ 32"
    using uint_lt2p [of m] by simp_all
  have d: "int (unat m) = uint m"
    by simp
  have e: "unat m < 2 ^ 31 \<longleftrightarrow> uint m < 2 ^ 31"
  proof -
    have "unat m < 2 ^ 31 \<longleftrightarrow> int (unat m) < 2 ^ 31"
      by (simp only: of_nat_less_numeral_power_cancel_iff)
    then show ?thesis
      by (simp only: d)
  qed
  show ?thesis
  proof (cases "uint m < 2 ^ 31")
    case True
    then have "(uint m + 2 ^ 31) mod 2 ^ 32 = uint m + 2 ^ 31"
      using c by simp
    then show ?thesis
      using True a b d e by simp
  next
    case False
    then have "(uint m + 2 ^ 31) mod 2 ^ 32 = uint m + 2 ^ 31 - 2 ^ 32"
      using c by (simp add: mod_pos_geq)
    then show ?thesis
      using False a b d e by simp
  qed
qed

subsection \<open>Handlers act on what they decode\<close>

lemma receiver_handle_decode:
  "receiver_handle_server_message type message s =
     (case receiver_decode type message of
        Inl f \<Rightarrow> Inl f
      | Inr None \<Rightarrow> Inr s
      | Inr (Some m) \<Rightarrow> Inr (receiver_act m s))"
  by (auto simp: receiver_handle_server_message_def receiver_decode_def decode_def decode_sdp_def
      decode_ice_def Let_def split: payload.splits json.splits option.splits)

lemma sender_handle_decode:
  "sender_handle_server_message type message s =
     (case sender_decode type message of
        Inl f \<Rightarrow> Inl f
      | Inr None \<Rightarrow> Inr s
      | Inr (Some m) \<Rightarrow> Inr (sender_act m s))"
  by (auto simp: sender_handle_server_message_def sender_decode_def decode_def decode_sdp_def
      decode_ice_def Let_def split: payload.splits json.splits option.splits)

lemma decode_roundtrip_sdp:
  "decode expected t SOUP_WEBSOCKET_DATA_TEXT (frame (sdp_message d)) =
     (if (if desc_type d = GST_WEBRTC_SDP_TYPE_OFFER then ''offer'' else ''answer'') = expected
      then Inr (Some (SdpMessage \<lparr>desc_type = t, desc_sdp = desc_sdp d\<rparr>)) else Inr None)"
  by (simp add: decode_def decode_sdp_def frame_def json_object_to_string_def sdp_message_def
      json_object_has_member_def json_object_get_object_member_def
      json_object_get_string_member_def)

lemma decode_roundtrip_ice:
  "decode expected t SOUP_WEBSOCKET_DATA_TEXT (frame (ice_message mline candidate)) =
     Inr (Some (IceMessage mline (Some candidate)))"
  by (simp add: decode_def decode_ice_def frame_def json_object_to_string_def ice_message_def
      json_object_has_member_def json_object_get_object_member_def
      json_object_get_string_member_def json_object_get_int_member_def gint_roundtrip)

lemma decode_sdp_cases:
  "decode_sdp expected t obj = Inl NullDereference \<or> decode_sdp expected t obj = Inr None \<or>
   (\<exists>d. decode_sdp expected t obj = Inr (Some (SdpMessage d)))"
  by (simp add: decode_sdp_def Let_def split: option.splits)

lemma act_sdp_ice_calls:
  "ice_calls (receiver_act (SdpMessage d) s) = ice_calls s"
  "ice_calls (sender_act (SdpMessage d) s) = ice_calls s"
  by (simp_all add: ice_calls_def g_signal_emit_by_name_def call_simps Let_def)

subsection \<open>Teardown\<close>







subsection \<open>Attaching the stream\<close>

lemma set_if_present_simps:
  "webrtc (set_if_present el f a b s) = webrtc s"
  "ws_conn (set_if_present el f a b s) = ws_conn s"
  "video_chain_built (set_if_present el f a b s) = video_chain_built s"
  "promises_offer_set (set_if_present el f a b s) = promises_offer_set s"
  "promises_answer_created (set_if_present el f a b s) = promises_answer_created s"
  "promises_offer_created (set_if_present el f a b s) = promises_offer_created s"
  "filter is_add_ice (trace (set_if_present el f a b s)) = filter is_add_ice (trace s)"
  "count_list (trace (set_if_present el f a b s)) CreateAnswer = count_list (trace s) CreateAnswer"
  "count_list (trace (set_if_present el f a b s)) CreateOffer = count_list (trace s) CreateOffer"
  "count_list (trace (set_if_present el f a b s)) ParseBinFromDescription =
     count_list (trace s) ParseBinFromDescription"
  by (simp_all add: set_if_present_def Let_def call_simps split: option.splits prod.splits)

lemma on_incoming_stream_frame:
  "webrtc (on_incoming_stream p c s) = webrtc s"
  "ws_conn (on_incoming_stream p c s) = ws_conn s"
  "promises_offer_set (on_incoming_stream p c s) = promises_offer_set s"
  "promises_answer_created (on_incoming_stream p c s) = promises_answer_created s"
  "promises_offer_created (on_incoming_stream p c s) = promises_offer_created s"
  "ice_calls (on_incoming_stream p c s) = ice_calls s"
  "create_answers (on_incoming_stream p c s) = create_answers s"
  "create_offers (on_incoming_stream p c s) = create_offers s"
  by (simp_all add: on_incoming_stream_def ice_calls_def create_answers_def create_offers_def
      Let_def call_simps set_if_present_simps split: option.splits prod.splits)

lemma on_incoming_stream_built:
  "video_chain_built s \<Longrightarrow>
     video_chain_built (on_incoming_stream p c s) \<and>
     chain_constructions (on_incoming_stream p c s) = chain_constructions s"
  by (simp add: on_incoming_stream_def chain_constructions_def call_simps)

lemma on_incoming_stream_attempt:
  "matches p \<Longrightarrow> \<not> video_chain_built s \<Longrightarrow>
     video_chain_built (on_incoming_stream p c s) = attaches c \<and>
     chain_constructions (on_incoming_stream p c s) = Suc (chain_constructions s)"
  by (auto simp: on_incoming_stream_def matches_def attaches_def chain_constructions_def
      Let_def call_simps set_if_present_simps split: option.splits prod.splits)

lemma on_incoming_stream_reject:
  assumes src: "pad_direction p = GST_PAD_SRC" and no: "\<not> matches p"
  shows "\<exists>ds. ds \<noteq> [] \<and> list_all is_diagnostic ds \<and>
           on_incoming_stream p c s = s\<lparr>trace := trace s @ ds\<rparr>"
proof (cases "video_chain_built s")
  case True
  let ?d = "Print ''[receiver] Video chain already built, ignoring extra pad\<newline>'' []"
  have "on_incoming_stream p c s = s\<lparr>trace := trace s @ [?d]\<rparr>"
    using src True by (simp add: on_incoming_stream_def call_def)
  then show ?thesis
    by (intro exI [of _ "[?d]"]) simp
next
  case False
  show ?thesis
  proof (cases "pad_caps p")
    case None
    let ?d = "PrintErr ''[receiver] No caps on incoming pad\<newline>'' []"
    have "on_incoming_stream p c s = s\<lparr>trace := trace s @ [?d]\<rparr>"
      using src False None by (simp add: on_incoming_stream_def call_def)
    then show ?thesis
      by (intro exI [of _ "[?d]"]) simp
  next
    case (Some caps)
    obtain media_type encoding where caps: "caps = (media_type, encoding)"
      by (cases caps)
    let ?d1 = "Print ''[receiver] pad caps: %s, encoding=%s\<newline>''
                 [S (case media_type of None \<Rightarrow> ''null'' | Some m \<Rightarrow> m),
                  S (case encoding of None \<Rightarrow> ''null'' | Some e \<Rightarrow> e)]"
    let ?d2 = "Print ''[receiver] Ignoring non-H264 pad\<newline>'' []"
    have rej: "(case media_type of None \<Rightarrow> True | Some m \<Rightarrow> \<not> prefix ''application/x-rtp'' m) \<or>
               (case encoding of None \<Rightarrow> True | Some e \<Rightarrow> e \<noteq> ''H264'')"
      using src no Some caps by (simp add: matches_def split: option.splits)
    have "on_incoming_stream p c s = s\<lparr>trace := trace s @ [?d1, ?d2]\<rparr>"
      unfolding on_incoming_stream_def Let_def
      using src False Some caps rej by (simp add: call_def)
    then show ?thesis
      by (intro exI [of _ "[?d1, ?d2]"]) simp
  qed
qed

lemma pads_added_built:
  "video_chain_built s \<Longrightarrow>
     video_chain_built (pads_added ps s) \<and>
     chain_constructions (pads_added ps s) = chain_constructions s"
proof (induction ps arbitrary: s)
  case Nil
  then show ?case by simp
next
  case (Cons a ps)
  obtain p c where a: "a = (p, c)"
    by (cases a)
  from Cons.prems have "video_chain_built (on_incoming_stream p c s)"
    and "chain_constructions (on_incoming_stream p c s) = chain_constructions s"
    by (simp_all add: on_incoming_stream_built)
  with Cons.IH [of "on_incoming_stream p c s"] show ?case
    by (simp add: a)
qed

lemma pads_added_matching:
  "\<forall>(p, c) \<in> set ps. matches p \<Longrightarrow> \<not> video_chain_built s \<Longrightarrow>
     video_chain_built (pads_added ps s) = (\<exists>(p, c) \<in> set ps. attaches c) \<and>
     chain_constructions (pads_added ps s) =
       chain_constructions s + min (length ps) (Suc (length (takeWhile (\<lambda>(p, c). \<not> attaches c) ps)))"
proof (induction ps arbitrary: s)
  case Nil
  then show ?case by simp
next
  case (Cons a ps)
  obtain p c where a: "a = (p, c)"
    by (cases a)
  from Cons.prems a have m: "matches p" and rest: "\<forall>(p, c) \<in> set ps. matches p"
    by simp_all
  let ?s = "on_incoming_stream p c s"
  from on_incoming_stream_attempt [OF m Cons.prems(2), of c]
  have b: "video_chain_built ?s = attaches c"
    and n: "chain_constructions ?s = Suc (chain_constructions s)"
    by simp_all
  show ?case
  proof (cases "attaches c")
    case True
    with b have "video_chain_built ?s" by simp
    from pads_added_built [OF this, of ps] n True show ?thesis
      by (simp add: a)
  next
    case False
    with b have "\<not> video_chain_built ?s" by simp
    from Cons.IH [OF rest this] n False show ?thesis
      by (simp add: a)
  qed
qed

subsection \<open>What a callback leaves alone\<close>

lemma receiver_act_frame:
  "webrtc (receiver_act m s) = webrtc s"
  "create_offers (receiver_act m s) = create_offers s"
  "create_answers (receiver_act m s) = create_answers s"
  by (cases m; simp add: create_offers_def create_answers_def g_signal_emit_by_name_def
      call_simps Let_def)+

lemma receiver_act_promises:
  "promises_offer_set (receiver_act m s) =
     promises_offer_set s + (if webrtc s \<and> is_sdp (Some m) then 1 else 0)"
  by (cases m) (simp_all add: g_signal_emit_by_name_def call_simps Let_def)

lemma receiver_act_ice:
  "webrtc s \<Longrightarrow> ice_calls (receiver_act m s) = ice_calls s @ forwarded (Some m)"
  by (cases m) (simp_all add: ice_calls_def g_signal_emit_by_name_def call_simps Let_def)

lemma sender_act_frame:
  "webrtc (sender_act m s) = webrtc s"
  "create_offers (sender_act m s) = create_offers s"
  "create_answers (sender_act m s) = create_answers s"
  "promises_offer_created (sender_act m s) = promises_offer_created s"
  by (cases m; simp add: create_offers_def create_answers_def g_signal_emit_by_name_def
      call_simps Let_def)+

lemma sender_act_ice:
  "webrtc s \<Longrightarrow> ice_calls (sender_act m s) = ice_calls s @ forwarded (Some m)"
  by (cases m) (simp_all add: ice_calls_def g_signal_emit_by_name_def call_simps Let_def)

lemma send_sdp_frame:
  "send_sdp d s = Inr s' \<Longrightarrow>
     webrtc s' = webrtc s \<and> create_offers s' = create_offers s \<and>
     create_answers s' = create_answers s \<and> ice_calls s' = ice_calls s \<and>
     promises_offer_set s' = promises_offer_set s"
  by (auto simp: send_sdp_def create_offers_def create_answers_def ice_calls_def call_simps
      split: if_splits option.splits)

lemma send_ice_candidate_frame:
  "webrtc (send_ice_candidate i c s) = webrtc s"
  "create_offers (send_ice_candidate i c s) = create_offers s"
  "create_answers (send_ice_candidate i c s) = create_answers s"
  "ice_calls (send_ice_candidate i c s) = ice_calls s"
  "promises_offer_set (send_ice_candidate i c s) = promises_offer_set s"
  by (simp_all add: send_ice_candidate_def create_offers_def create_answers_def ice_calls_def
      call_simps)

lemma on_answer_created_frame:
  assumes "on_answer_created r s = Inr s'"
  shows "webrtc s' = webrtc s \<and> create_offers s' = create_offers s \<and>
     create_answers s' = create_answers s \<and> ice_calls s' = ice_calls s \<and>
     promises_offer_set s' = promises_offer_set s"
proof (cases r)
  case (GST_PROMISE_RESULT_REPLIED d)
  let ?mid = "call (Print ''[receiver] Sending SDP answer\<newline>'' [])
                (g_signal_emit_by_name (SetLocalDescription d) s)"
  from assms GST_PROMISE_RESULT_REPLIED have "send_sdp d ?mid = Inr s'"
    by (simp add: on_answer_created_def)
  from send_sdp_frame [OF this] show ?thesis
    by (simp add: create_offers_def create_answers_def ice_calls_def call_simps emit_frame)
qed (use assms in \<open>simp_all add: on_answer_created_def\<close>)

lemma on_offer_created_frame:
  assumes "on_offer_created r s = Inr s'"
  shows "webrtc s' = webrtc s \<and> create_offers s' = create_offers s \<and>
     create_answers s' = create_answers s \<and> ice_calls s' = ice_calls s"
proof (cases r)
  case (GST_PROMISE_RESULT_REPLIED d)
  let ?mid = "call (Print ''[sender] Sending SDP offer\<newline>'' [])
                (g_signal_emit_by_name (SetLocalDescription d) s)"
  from assms GST_PROMISE_RESULT_REPLIED have "send_sdp d ?mid = Inr s'"
    by (simp add: on_offer_created_def)
  from send_sdp_frame [OF this] show ?thesis
    by (simp add: create_offers_def create_answers_def ice_calls_def call_simps emit_frame)
qed (use assms in \<open>simp_all add: on_offer_created_def\<close>)

lemma on_negotiation_needed_frame:
  "webrtc (on_negotiation_needed s) = webrtc s"
  "create_answers (on_negotiation_needed s) = create_answers s"
  "ice_calls (on_negotiation_needed s) = ice_calls s"
  "create_offers (on_negotiation_needed s) = create_offers s + (if webrtc s then 1 else 0)"
  by (simp_all add: on_negotiation_needed_def create_answers_def create_offers_def ice_calls_def
      Let_def call_simps)

lemma built_frame:
  "video_chain_built (receiver_act m s) = video_chain_built s"
  "chain_constructions (receiver_act m s) = chain_constructions s"
  "video_chain_built (send_ice_candidate i c s) = video_chain_built s"
  "chain_constructions (send_ice_candidate i c s) = chain_constructions s"
  "video_chain_built (on_offer_set s) = video_chain_built s"
  "chain_constructions (on_offer_set s) = chain_constructions s"
  "video_chain_built (cleanup_and_quit closing msg s) = video_chain_built s"
  by (cases m; simp add: chain_constructions_def send_ice_candidate_def on_offer_set_def
      cleanup_and_quit_def g_signal_emit_by_name_def call_simps Let_def split: option.splits)+

lemma on_answer_created_built:
  assumes "on_answer_created r s = Inr s'"
  shows "video_chain_built s' = video_chain_built s \<and>
         chain_constructions s' = chain_constructions s"
proof (cases r)
  case (GST_PROMISE_RESULT_REPLIED d)
  let ?mid = "call (Print ''[receiver] Sending SDP answer\<newline>'' [])
                (g_signal_emit_by_name (SetLocalDescription d) s)"
  from assms GST_PROMISE_RESULT_REPLIED have "send_sdp d ?mid = Inr s'"
    by (simp add: on_answer_created_def)
  then have "s' = ?mid \<or> (\<exists>e. s' = call e ?mid \<and> e \<noteq> ParseBinFromDescription)"
    by (auto simp: send_sdp_def split: if_splits option.splits)
  moreover have "video_chain_built (g_signal_emit_by_name (SetLocalDescription d) s) =
      video_chain_built s"
    by (simp add: g_signal_emit_by_name_def call_simps)
  ultimately show ?thesis
    by (elim disjE exE conjE) (simp_all add: chain_constructions_def call_simps emit_frame)
qed (use assms in \<open>simp_all add: on_answer_created_def\<close>)

subsection \<open>Runs\<close>

lemma receiver_step_counts:
  assumes "receiver_step e s = Inr s'"
  shows "webrtc s' = webrtc s"
    and "create_offers s' = create_offers s"
    and "create_answers s' + promises_offer_set s' \<le>
           create_answers s + promises_offer_set s + (if receiver_offer e then 1 else 0)"
    and "webrtc s \<Longrightarrow> create_answers s' + promises_offer_set s' =
           create_answers s + promises_offer_set s + (if receiver_offer e then 1 else 0)"
    and "webrtc s \<Longrightarrow> ice_calls s' = ice_calls s @ receiver_ice e"
proof -
  have "webrtc s' = webrtc s \<and> create_offers s' = create_offers s \<and>
        create_answers s' + promises_offer_set s' \<le>
           create_answers s + promises_offer_set s + (if receiver_offer e then 1 else 0) \<and>
        (webrtc s \<longrightarrow> create_answers s' + promises_offer_set s' =
           create_answers s + promises_offer_set s + (if receiver_offer e then 1 else 0)) \<and>
        (webrtc s \<longrightarrow> ice_calls s' = ice_calls s @ receiver_ice e)"
  proof (cases e)
    case (Message type message)
    show ?thesis
    proof (cases "receiver_decode type message")
      case (Inl f)
      with assms Message show ?thesis
        by (simp add: receiver_handle_decode)
    next
      case (Inr m)
      with assms Message show ?thesis
        by (cases m)
          (auto simp: receiver_handle_decode receiver_act_frame receiver_act_promises
            receiver_act_ice)
    qed
  next
    case OfferSet
    with assms show ?thesis
      by (auto simp: on_offer_set_def create_answers_def create_offers_def ice_calls_def
          call_simps split: if_splits)
  next
    case (AnswerCreated r)
    with assms show ?thesis
      by (auto simp: create_answers_def create_offers_def ice_calls_def
          split: if_splits dest!: on_answer_created_frame)
  next
    case (OnIceCandidate i c)
    with assms show ?thesis
      by (auto simp: send_ice_candidate_frame)
  next
    case (PadAdded p c)
    with assms show ?thesis
      by (auto simp: on_incoming_stream_frame)
  qed
  then show "webrtc s' = webrtc s"
    and "create_offers s' = create_offers s"
    and "create_answers s' + promises_offer_set s' \<le>
           create_answers s + promises_offer_set s + (if receiver_offer e then 1 else 0)"
    and "webrtc s \<Longrightarrow> create_answers s' + promises_offer_set s' =
           create_answers s + promises_offer_set s + (if receiver_offer e then 1 else 0)"
    and "webrtc s \<Longrightarrow> ice_calls s' = ice_calls s @ receiver_ice e"
    by simp_all
qed

lemma receiver_run_counts:
  "receiver_run evs s = Inr s' \<Longrightarrow>
     webrtc s' = webrtc s \<and> create_offers s' = create_offers s \<and>
     create_answers s' + promises_offer_set s' \<le>
       create_answers s + promises_offer_set s + length (filter receiver_offer evs) \<and>
     (webrtc s \<longrightarrow> create_answers s' + promises_offer_set s' =
       create_answers s + promises_offer_set s + length (filter receiver_offer evs)) \<and>
     (webrtc s \<longrightarrow> ice_calls s' = ice_calls s @ concat (map receiver_ice evs))"
proof (induction evs arbitrary: s)
  case Nil
  then show ?case by simp
next
  case (Cons e evs)
  from Cons.prems obtain s1 where step: "receiver_step e s = Inr s1"
    and run: "receiver_run evs s1 = Inr s'"
    by (auto split: sum.splits)
  note a = receiver_step_counts [OF step]
  note b = Cons.IH [OF run]
  show ?case
    using a b by (cases "receiver_offer e"; cases "webrtc s") auto
qed

lemma sender_step_counts:
  assumes "sender_step e s = Inr s'"
  shows "webrtc s' = webrtc s \<and> create_answers s' = create_answers s \<and>
        create_offers s' \<le> create_offers s + (if e = NegotiationNeeded then 1 else 0) \<and>
        (webrtc s \<longrightarrow>
           create_offers s' = create_offers s + (if e = NegotiationNeeded then 1 else 0)) \<and>
        (webrtc s \<longrightarrow> ice_calls s' = ice_calls s @ sender_ice e)"
proof (cases e)
  case (SMessage type message)
  show ?thesis
  proof (cases "sender_decode type message")
    case (Inl f)
    with assms SMessage show ?thesis
      by (simp add: sender_handle_decode)
  next
    case (Inr m)
    with assms SMessage show ?thesis
      by (cases m) (auto simp: sender_handle_decode sender_act_frame sender_act_ice)
  qed
next
  case NegotiationNeeded
  with assms show ?thesis
    by (auto simp: on_negotiation_needed_frame)
next
  case (OfferCreated r)
  with assms show ?thesis
    by (auto simp: create_answers_def create_offers_def ice_calls_def
        split: if_splits dest!: on_offer_created_frame)
next
  case (SOnIceCandidate i c)
  with assms show ?thesis
    by (auto simp: send_ice_candidate_frame)
qed

lemma sender_run_counts:
  "sender_run evs s = Inr s' \<Longrightarrow>
     webrtc s' = webrtc s \<and> create_answers s' = create_answers s \<and>
     create_offers s' \<le> create_offers s + count_list evs NegotiationNeeded \<and>
     (webrtc s \<longrightarrow> create_offers s' = create_offers s + count_list evs NegotiationNeeded) \<and>
     (webrtc s \<longrightarrow> ice_calls s' = ice_calls s @ concat (map sender_ice evs))"
proof (induction evs arbitrary: s)
  case Nil
  then show ?case by simp
next
  case (Cons e evs)
  from Cons.prems obtain s1 where step: "sender_step e s = Inr s1"
    and run: "sender_run evs s1 = Inr s'"
    by (auto split: sum.splits)
  note a = sender_step_counts [OF step]
  note b = Cons.IH [OF run]
  show ?case
    using a b by (cases "e = NegotiationNeeded"; cases "webrtc s") auto
qed

lemma receiver_step_built:
  assumes "receiver_step e s = Inr s'" and "video_chain_built s"
  shows "video_chain_built s' \<and> chain_constructions s' = chain_constructions s"
proof (cases e)
  case (Message type message)
  with assms show ?thesis
    by (auto simp: receiver_handle_decode built_frame split: sum.splits option.splits
        simp del: receiver_act.simps)
next
  case OfferSet
  with assms show ?thesis
    by (auto simp: on_offer_set_def chain_constructions_def call_simps split: if_splits)
next
  case (AnswerCreated r)
  with assms show ?thesis
    by (auto simp: chain_constructions_def split: if_splits dest!: on_answer_created_built)
next
  case (OnIceCandidate i c)
  with assms show ?thesis
    by (auto simp: built_frame)
next
  case (PadAdded p c)
  with assms show ?thesis
    by (auto simp: on_incoming_stream_built)
qed

lemma receiver_run_built:
  "receiver_run evs s = Inr s' \<Longrightarrow> video_chain_built s \<Longrightarrow>
     video_chain_built s' \<and> chain_constructions s' = chain_constructions s"
proof (induction evs arbitrary: s)
  case Nil
  then show ?case by simp
next
  case (Cons e evs)
  from Cons.prems(1) obtain s1 where step: "receiver_step e s = Inr s1"
    and run: "receiver_run evs s1 = Inr s'"
    by (auto split: sum.splits)
  from receiver_step_built [OF step Cons.prems(2)] Cons.IH [OF run] show ?case
    by simp
qed

subsection \<open>Evaluation on concrete input\<close>

lemmas eval_defs =
  frame_def json_object_to_string_def sdp_message_def ice_message_def
  receiver_decode_def sender_decode_def decode_def decode_sdp_def decode_ice_def
  json_object_has_member_def json_object_get_object_member_def
  json_object_get_string_member_def json_object_get_int_member_def
  receiver_handle_decode sender_handle_decode g_signal_emit_by_name_def call_def
  on_offer_set_def on_negotiation_needed_def live_def offer0_def answer0_def Let_def
  create_answers_def create_offers_def ice_calls_def gint_roundtrip

section \<open>The claims\<close>

subsection \<open>C1: requests to create an offer or an answer\<close>

text \<open>
  Claim C1 says that a session issues at most one create-answer (receiver) and at most one
  create-offer (sender), and that a second SDP offer never causes a second create-answer.
  Neither program keeps any record of a request already made: the receiver hands every
  offer to webrtcbin and asks for an answer each time the promise of that call fires, and
  the sender asks for an offer on every \<open>on-negotiation-needed\<close>. What holds is a bound per
  trigger. Over any run that does not crash, the create-answer requests made plus the
  promises still waiting are at most (with webrtcbin alive: exactly) the offers received,
  and the receiver never asks for an offer; the create-offer requests are at most (with
  webrtcbin alive: exactly) the \<open>on-negotiation-needed\<close> signals, and the sender never asks
  for an answer.
\<close>

theorem negotiation_requests_per_trigger:
  "(receiver_run evs s = Inr s' \<longrightarrow>
      create_answers s' + promises_offer_set s' \<le>
        create_answers s + promises_offer_set s + length (filter receiver_offer evs) \<and>
      (webrtc s \<longrightarrow> create_answers s' + promises_offer_set s' =
         create_answers s + promises_offer_set s + length (filter receiver_offer evs)) \<and>
      create_offers s' = create_offers s) \<and>
   (sender_run sevs t = Inr t' \<longrightarrow>
      create_offers t' \<le> create_offers t + count_list sevs NegotiationNeeded \<and>
      (webrtc t \<longrightarrow> create_offers t' = create_offers t + count_list sevs NegotiationNeeded) \<and>
      create_answers t' = create_answers t)"
  using receiver_run_counts [of evs s s'] sender_run_counts [of sevs t t'] by blast

theorem negotiation_requests_per_trigger_witness:
  "\<exists>s' t'. receiver_run two_offers live = Inr s' \<and>
     sender_run [NegotiationNeeded, NegotiationNeeded] live = Inr t' \<and> webrtc live \<and>
     create_answers s' + promises_offer_set s' = 2 \<and> create_offers s' = 0 \<and>
     create_offers t' = 2 \<and> create_answers t' = 0"
proof -
  obtain s' where r: "receiver_run two_offers live = Inr s'"
    by (simp add: two_offers_def eval_defs)
  obtain t' where t: "sender_run [NegotiationNeeded, NegotiationNeeded] live = Inr t'"
    by simp
  have n: "length (filter receiver_offer two_offers) = 2"
    by (simp add: two_offers_def eval_defs)
  have l: "webrtc live" "create_answers live = 0" "create_offers live = 0"
    "promises_offer_set live = 0"
    by (simp_all add: live_def create_answers_def create_offers_def)
  from negotiation_requests_per_trigger
    [of two_offers live s' "[NegotiationNeeded, NegotiationNeeded]" live t'] r t n l
  show ?thesis
    by simp
qed

text \<open>
  Two offers, each followed by the completion of its \<open>set-remote-description\<close>: the
  receiver asks webrtcbin for an answer twice.
\<close>

theorem second_offer_second_answer_counterexample:
  "map_sum id create_answers (receiver_run two_offers live) = Inr 2"
  by (simp add: two_offers_def eval_defs)

subsection \<open>C2: what is written is what is read\<close>




subsection \<open>C3: the receive chain is attached once\<close>

text \<open>
  Claim C3. Let any number of inbound pads arrive that all match the policy (source pads
  whose caps name starts with \<open>application/x-rtp\<close> and whose encoding is \<open>H264\<close>), starting
  with no chain built. Then \<open>video_chain_built\<close> ends true exactly when some attempt
  succeeded, and the chain was constructed once for every pad up to and including the
  first success and never after it: a failed attempt leaves the flag false and the next
  pad tries again. Once the flag is true it stays true and nothing is constructed any
  more, whatever pads arrive, whatever other callbacks of the session run, and through
  teardown as well.
\<close>

theorem attach_exactly_once:
  "((\<forall>(p, c) \<in> set ps. matches p) \<and> \<not> video_chain_built s \<longrightarrow>
      video_chain_built (pads_added ps s) = (\<exists>(p, c) \<in> set ps. attaches c) \<and>
      chain_constructions (pads_added ps s) =
        chain_constructions s +
          min (length ps) (Suc (length (takeWhile (\<lambda>(p, c). \<not> attaches c) ps)))) \<and>
   (video_chain_built s \<longrightarrow>
      video_chain_built (pads_added qs s) \<and>
      chain_constructions (pads_added qs s) = chain_constructions s) \<and>
   (video_chain_built s \<and> receiver_run evs s = Inr s' \<longrightarrow>
      video_chain_built s' \<and> chain_constructions s' = chain_constructions s) \<and>
   video_chain_built (cleanup_and_quit closing msg s) = video_chain_built s"
  using pads_added_matching [of ps s] pads_added_built [of s qs] receiver_run_built [of evs s s']
  by (simp only: built_frame) blast

theorem attach_exactly_once_witness:
  "\<exists>s'. (\<forall>(p, c) \<in> set three_pads. matches p) \<and> \<not> video_chain_built live \<and>
     video_chain_built (pads_added three_pads live) \<and>
     chain_constructions (pads_added three_pads live) = 2 \<and>
     video_chain_built (pads_added [(audio_pad, good_chain)] (pads_added three_pads live)) \<and>
     receiver_run [PadAdded h264_pad good_chain,
                   Message SOUP_WEBSOCKET_DATA_TEXT (frame (sdp_message offer0))]
       (pads_added three_pads live) = Inr s' \<and>
     video_chain_built s' \<and> chain_constructions s' = 2"
proof -
  let ?s = "pads_added three_pads live"
  let ?evs = "[PadAdded h264_pad good_chain,
               Message SOUP_WEBSOCKET_DATA_TEXT (frame (sdp_message offer0))]"
  have m: "\<forall>(p, c) \<in> set three_pads. matches p"
    by (simp add: three_pads_def matches_def h264_pad_def)
  have n: "\<not> video_chain_built live" "chain_constructions live = 0"
    by (simp_all add: live_def chain_constructions_def)
  have a: "\<not> attaches bad_chain" "attaches good_chain"
    by (simp_all add: attaches_def good_chain_def bad_chain_def GST_PAD_LINK_OK_def)
  obtain s' where r: "receiver_run ?evs ?s = Inr s'"
    by (simp add: receiver_handle_decode receiver_decode_def decode_roundtrip_sdp offer0_def)
  from attach_exactly_once [of three_pads live "[]" "[]" live] m n a
  have b: "video_chain_built ?s" "chain_constructions ?s = 2"
    by (simp_all add: three_pads_def)
  from attach_exactly_once [of "[]" ?s "[(audio_pad, good_chain)]" ?evs s'] b r
  have "video_chain_built (pads_added [(audio_pad, good_chain)] ?s)"
    and "video_chain_built s'" and "chain_constructions s' = 2"
    by simp_all
  with m n b r show ?thesis
    by blast
qed

subsection \<open>C4: ICE candidates go straight to webrtcbin\<close>

text \<open>
  Claim C4. While webrtcbin exists, a frame that decodes to an ICE message makes the
  handler of either program emit \<open>add-ice-candidate\<close> with that index and candidate and
  do nothing else: no test of what has been negotiated, no queue, no comparison with
  earlier candidates. Over any run of a session, whatever other events are interleaved,
  the \<open>add-ice-candidate\<close> calls made are those of the ICE messages received, in the
  order of arrival.
\<close>

theorem ice_forwarded_in_arrival_order:
  "(webrtc s \<and> receiver_decode type message = Inr (Some (IceMessage mline candidate)) \<longrightarrow>
      receiver_handle_server_message type message s =
        Inr (call (AddIceCandidate mline candidate) s)) \<and>
   (webrtc s \<and> sender_decode type message = Inr (Some (IceMessage mline candidate)) \<longrightarrow>
      sender_handle_server_message type message s =
        Inr (call (AddIceCandidate mline candidate) s)) \<and>
   (webrtc s \<and> receiver_run evs s = Inr s' \<longrightarrow>
      ice_calls s' = ice_calls s @ concat (map receiver_ice evs)) \<and>
   (webrtc s \<and> sender_run sevs s = Inr t' \<longrightarrow>
      ice_calls t' = ice_calls s @ concat (map sender_ice sevs))"
  using receiver_run_counts [of evs s s'] sender_run_counts [of sevs s t']
  by (auto simp: receiver_handle_decode sender_handle_decode g_signal_emit_by_name_def)

theorem ice_forwarded_in_arrival_order_witness:
  "\<exists>s' t'. webrtc live \<and> receiver_run ice_then_offer live = Inr s' \<and>
     sender_run ice_then_answer live = Inr t' \<and>
     receiver_decode SOUP_WEBSOCKET_DATA_TEXT (frame (ice_message 0 ''candidate:1 1 UDP'')) =
       Inr (Some (IceMessage 0 (Some ''candidate:1 1 UDP''))) \<and>
     sender_decode SOUP_WEBSOCKET_DATA_TEXT (frame (ice_message 0 ''candidate:1 1 UDP'')) =
       Inr (Some (IceMessage 0 (Some ''candidate:1 1 UDP''))) \<and>
     receiver_handle_server_message SOUP_WEBSOCKET_DATA_TEXT
       (frame (ice_message 0 ''candidate:1 1 UDP'')) live =
       Inr (call (AddIceCandidate 0 (Some ''candidate:1 1 UDP'')) live) \<and>
     sender_handle_server_message SOUP_WEBSOCKET_DATA_TEXT
       (frame (ice_message 0 ''candidate:1 1 UDP'')) live =
       Inr (call (AddIceCandidate 0 (Some ''candidate:1 1 UDP'')) live) \<and>
     ice_calls s' =
       [AddIceCandidate 0 (Some ''candidate:1 1 UDP''), AddIceCandidate 1 (Some ''''),
        AddIceCandidate 0 (Some ''candidate:1 1 UDP'')] \<and>
     ice_calls t' =
       [AddIceCandidate 1 (Some ''candidate:2 1 UDP''), AddIceCandidate 0 (Some '''')]"
proof -
  obtain s' where r: "receiver_run ice_then_offer live = Inr s'"
    by (simp add: ice_then_offer_def eval_defs)
  obtain t' where t: "sender_run ice_then_answer live = Inr t'"
    by (simp add: ice_then_answer_def eval_defs)
  have d: "receiver_decode SOUP_WEBSOCKET_DATA_TEXT (frame (ice_message 0 ''candidate:1 1 UDP'')) =
       Inr (Some (IceMessage 0 (Some ''candidate:1 1 UDP'')))"
    "sender_decode SOUP_WEBSOCKET_DATA_TEXT (frame (ice_message 0 ''candidate:1 1 UDP'')) =
       Inr (Some (IceMessage 0 (Some ''candidate:1 1 UDP'')))"
    by (simp_all add: receiver_decode_def sender_decode_def decode_roundtrip_ice)
  have m: "concat (map receiver_ice ice_then_offer) =
       [AddIceCandidate 0 (Some ''candidate:1 1 UDP''), AddIceCandidate 1 (Some ''''),
        AddIceCandidate 0 (Some ''candidate:1 1 UDP'')]"
    "concat (map sender_ice ice_then_answer) =
       [AddIceCandidate 1 (Some ''candidate:2 1 UDP''), AddIceCandidate 0 (Some '''')]"
    by (simp_all add: ice_then_offer_def ice_then_answer_def receiver_decode_def
        sender_decode_def decode_roundtrip_ice decode_roundtrip_sdp offer0_def answer0_def)
  have l: "webrtc live" "ice_calls live = []"
    by (simp_all add: live_def ice_calls_def)
  from ice_forwarded_in_arrival_order
    [of live SOUP_WEBSOCKET_DATA_TEXT "frame (ice_message 0 ''candidate:1 1 UDP'')" 0
        "Some ''candidate:1 1 UDP''" ice_then_offer s' ice_then_answer t'] r t d m l
  show ?thesis
    by simp
qed

subsection \<open>C5: frames that are no signaling message\<close>

text \<open>
  Claim C5 says that a frame of malformed JSON, or whose document is no object, or whose
  object has neither shape, decodes to nothing and is dropped with no transition, no
  outgoing message and no call to webrtcbin, and that a diagnostic is logged. The handlers
  return from these paths without printing anything. What holds: for bytes the parser
  rejects, for a root that is no object, and for an object with neither an \<open>sdp\<close> nor an
  \<open>ice\<close> member, both programs decode nothing and leave every variable and the trace as
  they were, so nothing is sent, nothing reaches webrtcbin, nothing is printed, and the
  session goes on.
\<close>

theorem unrecognised_frame_ignored:
  "unrecognised message \<Longrightarrow>
     receiver_decode type message = Inr None \<and> sender_decode type message = Inr None \<and>
     receiver_handle_server_message type message s = Inr s \<and>
     sender_handle_server_message type message s = Inr s"
proof -
  assume "unrecognised message"
  then have "decode expected t type message = Inr None" for expected t
    by (cases message rule: unrecognised.cases) (simp_all add: decode_def)
  then show ?thesis
    by (simp add: receiver_handle_decode sender_handle_decode receiver_decode_def sender_decode_def)
qed

theorem unrecognised_frame_ignored_witness:
  "unrecognised (Doc (JString ''not json'')) \<and> unrecognised Malformed \<and>
   unrecognised (Doc (JObject [(''hello'', JNull)])) \<and>
   receiver_handle_server_message SOUP_WEBSOCKET_DATA_TEXT Malformed live = Inr live \<and>
   receiver_handle_server_message SOUP_WEBSOCKET_DATA_TEXT (Doc (JString ''not json'')) live =
     Inr live \<and>
   sender_handle_server_message SOUP_WEBSOCKET_DATA_TEXT (Doc (JObject [(''hello'', JNull)])) live =
     Inr live"
  using unrecognised_frame_ignored [of Malformed SOUP_WEBSOCKET_DATA_TEXT live]
    unrecognised_frame_ignored [of "Doc (JString ''not json'')" SOUP_WEBSOCKET_DATA_TEXT live]
    unrecognised_frame_ignored [of "Doc (JObject [(''hello'', JNull)])" SOUP_WEBSOCKET_DATA_TEXT live]
  by (simp add: json_object_has_member_def)

text \<open>
  A text frame that is not JSON, received by a fresh session: the state after is the
  state before, and its trace holds no diagnostic.
\<close>

theorem unrecognised_frame_silent_counterexample:
  "unrecognised Malformed \<and>
   receiver_handle_server_message SOUP_WEBSOCKET_DATA_TEXT Malformed live = Inr live \<and>
   sender_handle_server_message SOUP_WEBSOCKET_DATA_TEXT Malformed live = Inr live \<and>
   filter is_diagnostic (trace live) = []"
  by (simp add: receiver_handle_server_message_def sender_handle_server_message_def live_def)

text \<open>
  An object that has one of the two members but not its shape is outside the statement
  above. The handlers do not check what the accessors return: an \<open>ice\<close> member without a
  candidate is forwarded with a \<open>NULL\<close> candidate and index 0, and an offer without its
  text is handed to \<open>strlen\<close> as \<open>NULL\<close>.
\<close>

lemma member_without_its_shape:
  "receiver_handle_server_message SOUP_WEBSOCKET_DATA_TEXT
     (Doc (JObject [(''ice'', JObject [])])) live = Inr (call (AddIceCandidate 0 None) live)"
  "receiver_handle_server_message SOUP_WEBSOCKET_DATA_TEXT
     (Doc (JObject [(''sdp'', JObject [(''type'', JString ''offer'')])])) live =
     Inl NullDereference"
  by (simp_all add: receiver_handle_server_message_def json_object_has_member_def
      json_object_get_object_member_def json_object_get_string_member_def
      json_object_get_int_member_def g_signal_emit_by_name_def live_def)

subsection \<open>C6: teardown twice\<close>



subsection \<open>C7: pads of another kind are left alone\<close>

text \<open>
  Claim C7. An inbound (source) pad that does not match the policy, because its caps name
  does not start with \<open>application/x-rtp\<close> or its encoding is not \<open>H264\<close>, never has a
  chain constructed for it: \<open>on_incoming_stream\<close> prints at least one line and changes
  nothing else, so \<open>video_chain_built\<close> and every other variable stay as they were.
\<close>

theorem reject_other_media:
  "pad_direction p = GST_PAD_SRC \<Longrightarrow> \<not> matches p \<Longrightarrow>
     (\<exists>ds. ds \<noteq> [] \<and> list_all is_diagnostic ds \<and>
           on_incoming_stream p c s = s\<lparr>trace := trace s @ ds\<rparr>) \<and>
     video_chain_built (on_incoming_stream p c s) = video_chain_built s \<and>
     chain_constructions (on_incoming_stream p c s) = chain_constructions s"
proof -
  assume src: "pad_direction p = GST_PAD_SRC" and no: "\<not> matches p"
  from on_incoming_stream_reject [OF src no, of c s]
  obtain ds where ds: "ds \<noteq> []" "list_all is_diagnostic ds"
    and eq: "on_incoming_stream p c s = s\<lparr>trace := trace s @ ds\<rparr>"
    by blast
  from ds(2) have "count_list ds ParseBinFromDescription = 0"
    by (induction ds) auto
  with eq have "chain_constructions (on_incoming_stream p c s) = chain_constructions s"
    by (simp add: chain_constructions_def)
  with ds eq show ?thesis
    by auto
qed

theorem reject_other_media_witness:
  "pad_direction audio_pad = GST_PAD_SRC \<and> \<not> matches audio_pad \<and>
   on_incoming_stream audio_pad good_chain live =
     live\<lparr>trace := [Print ''[receiver] pad caps: %s, encoding=%s\<newline>'' [S ''audio'', S ''H264''],
                      Print ''[receiver] Ignoring non-H264 pad\<newline>'' []]\<rparr> \<and>
   chain_constructions (on_incoming_stream audio_pad good_chain live) = 0"
  using reject_other_media [of audio_pad good_chain live]
  by (simp add: audio_pad_def matches_def on_incoming_stream_def live_def call_def
      chain_constructions_def)

subsection \<open>C8: an SDP message of the other role\<close>

text \<open>
  Claim C8. A frame whose \<open>sdp\<close> member has the type \<open>answer\<close> leaves the receiver as it
  was, and one whose type is \<open>offer\<close> leaves the sender as it was: no variable changes,
  nothing is emitted or printed, and the handler returns normally.
\<close>

theorem role_mismatch_ignored:
  "(json_object_get_string_member (json_object_get_object_member (Some obj) ''sdp'') ''type'' =
      Some ''answer'' \<longrightarrow>
      receiver_handle_server_message type (Doc (JObject obj)) s = Inr s) \<and>
   (json_object_get_string_member (json_object_get_object_member (Some obj) ''sdp'') ''type'' =
      Some ''offer'' \<longrightarrow>
      sender_handle_server_message type (Doc (JObject obj)) s = Inr s)"
  by (auto simp: receiver_handle_server_message_def sender_handle_server_message_def Let_def
      json_object_has_member_def json_object_get_object_member_def
      json_object_get_string_member_def split: option.splits json.splits)

theorem role_mismatch_ignored_witness:
  "json_object_get_string_member
     (json_object_get_object_member (Some (sdp_message answer0)) ''sdp'') ''type'' = Some ''answer'' \<and>
   json_object_get_string_member
     (json_object_get_object_member (Some (sdp_message offer0)) ''sdp'') ''type'' = Some ''offer'' \<and>
   receiver_handle_server_message SOUP_WEBSOCKET_DATA_TEXT (frame (sdp_message answer0)) live =
     Inr live \<and>
   sender_handle_server_message SOUP_WEBSOCKET_DATA_TEXT (frame (sdp_message offer0)) live =
     Inr live"
  using role_mismatch_ignored [of "sdp_message answer0" SOUP_WEBSOCKET_DATA_TEXT live]
    role_mismatch_ignored [of "sdp_message offer0" SOUP_WEBSOCKET_DATA_TEXT live]
  by (simp add: frame_def json_object_to_string_def sdp_message_def answer0_def offer0_def
      json_object_get_object_member_def json_object_get_string_member_def)

subsection \<open>C9: \<open>sdp\<close> before \<open>ice\<close>\<close>

text \<open>
  Claim C9. When the object of a frame has both an \<open>sdp\<close> and an \<open>ice\<close> member, the
  handler of either program takes the SDP branch only: whenever it returns, the
  \<open>add-ice-candidate\<close> calls are those made before, and the frame counts as no ICE
  message.
\<close>

theorem sdp_member_takes_precedence:
  "json_object_has_member obj ''sdp'' \<Longrightarrow> json_object_has_member obj ''ice'' \<Longrightarrow>
     (\<forall>s'. receiver_handle_server_message type (Doc (JObject obj)) s = Inr s' \<longrightarrow>
           ice_calls s' = ice_calls s) \<and>
     (\<forall>s'. sender_handle_server_message type (Doc (JObject obj)) s = Inr s' \<longrightarrow>
           ice_calls s' = ice_calls s) \<and>
     receiver_ice (Message type (Doc (JObject obj))) = [] \<and>
     sender_ice (SMessage type (Doc (JObject obj))) = []"
proof -
  assume sdp: "json_object_has_member obj ''sdp''"
  have d: "decode expected t type (Doc (JObject obj)) =
             (if type \<noteq> SOUP_WEBSOCKET_DATA_TEXT then Inr None else decode_sdp expected t obj)"
    for expected t
    using sdp by (simp add: decode_def)
  show ?thesis
    using decode_sdp_cases [of "''offer''" GST_WEBRTC_SDP_TYPE_OFFER obj]
      decode_sdp_cases [of "''answer''" GST_WEBRTC_SDP_TYPE_ANSWER obj]
    by (auto simp: receiver_handle_decode sender_handle_decode receiver_decode_def
        sender_decode_def d act_sdp_ice_calls
        simp del: receiver_act.simps sender_act.simps)
qed

theorem sdp_member_takes_precedence_witness:
  "json_object_has_member both_members ''sdp'' \<and> json_object_has_member both_members ''ice'' \<and>
   receiver_handle_server_message SOUP_WEBSOCKET_DATA_TEXT (Doc (JObject both_members)) live =
     Inr ((call (SetRemoteDescription offer0)
            (call (Print ''[receiver] Received SDP offer -> set-remote-description\<newline>'' []) live))
          \<lparr>promises_offer_set := 1\<rparr>) \<and>
   receiver_ice (Message SOUP_WEBSOCKET_DATA_TEXT (Doc (JObject both_members))) = []"
  using sdp_member_takes_precedence [of both_members SOUP_WEBSOCKET_DATA_TEXT live]
  by (simp add: both_members_def receiver_handle_server_message_def json_object_has_member_def
      json_object_get_object_member_def json_object_get_string_member_def live_def call_def
      offer0_def)

subsection \<open>C10: the media-line index on the wire\<close>

text \<open>
  Claim C10. With the socket open, \<open>send_ice_candidate\<close> sends the candidate with
  \<open>sdpMLineIndex\<close> set to the index cast to a signed 32-bit integer: read as a signed
  number the member equals the index when the index is below \<open>2^31\<close>, and is the index
  minus \<open>2^32\<close>, a negative number, from \<open>2^31\<close> on.
\<close>

theorem mline_index_signed_cast:
  "ws_conn s = Some SOUP_WEBSOCKET_STATE_OPEN \<Longrightarrow>
     send_ice_candidate mlineindex candidate s =
       call (WsSendText (JObject [(''ice'', JObject [(''candidate'', JString candidate),
               (''sdpMLineIndex'', JInt (gint_of_guint mlineindex))])])) s \<and>
     (unat mlineindex < 2 ^ 31 \<longrightarrow> sint (gint_of_guint mlineindex) = int (unat mlineindex)) \<and>
     (2 ^ 31 \<le> unat mlineindex \<longrightarrow>
        sint (gint_of_guint mlineindex) = int (unat mlineindex) - 2 ^ 32 \<and>
        sint (gint_of_guint mlineindex) < 0)"
proof -
  assume "ws_conn s = Some SOUP_WEBSOCKET_STATE_OPEN"
  then have a: "send_ice_candidate mlineindex candidate s =
       call (WsSendText (JObject [(''ice'', JObject [(''candidate'', JString candidate),
               (''sdpMLineIndex'', JInt (gint_of_guint mlineindex))])])) s"
    by (simp add: send_ice_candidate_def ice_message_def json_object_to_string_def)
  have "unat mlineindex < 2 ^ 32"
    using unsigned_less [of mlineindex, where 'a = nat] by simp
  then have "int (unat mlineindex) - 2 ^ 32 < 0"
    by (simp only: diff_less_0_iff_less of_nat_less_numeral_power_cancel_iff)
  with a gint_value [of mlineindex] show ?thesis
    by (simp only: not_less [symmetric] if_True if_False simp_thms split: if_splits)
qed

theorem mline_index_signed_cast_witness:
  "ws_conn live = Some SOUP_WEBSOCKET_STATE_OPEN \<and> (2::nat) ^ 31 \<le> unat (4294967295 :: 32 word) \<and>
   unat (7 :: 32 word) < 2 ^ 31 \<and>
   sint (gint_of_guint 4294967295) = - 1 \<and> sint (gint_of_guint 7) = 7"
  using mline_index_signed_cast [of live 4294967295 "''''"]
    mline_index_signed_cast [of live 7 "''''"]
  by (simp add: live_def)

end
